theory Spec2Isabelle
  imports Complex_Main
begin

section \<open>JavaScript numbers\<close>

text \<open>
  A JavaScript \<^verbatim>\<open>number\<close> is an IEEE double. A finite double is modelled by the real
  number it denotes, the two infinities and NaN are values of their own, and a decimal
  literal of the source is taken as the real number it names. Comparisons, the absolute
  value and \<^verbatim>\<open>Math.round\<close> are exact functions of their arguments and follow the
  language: every comparison with NaN is false.
\<close>

datatype jsnum = NaN | NegInf | Fin real | PosInf

fun js_lt :: "jsnum \<Rightarrow> jsnum \<Rightarrow> bool" where
  "js_lt NaN _ = False"
| "js_lt _ NaN = False"
| "js_lt PosInf _ = False"
| "js_lt _ NegInf = False"
| "js_lt NegInf _ = True"
| "js_lt (Fin a) (Fin b) = (a < b)"
| "js_lt (Fin a) PosInf = True"

fun js_le :: "jsnum \<Rightarrow> jsnum \<Rightarrow> bool" where
  "js_le NaN _ = False"
| "js_le _ NaN = False"
| "js_le NegInf _ = True"
| "js_le _ PosInf = True"
| "js_le PosInf _ = False"
| "js_le (Fin a) (Fin b) = (a \<le> b)"
| "js_le (Fin a) NegInf = False"

definition js_gt :: "jsnum \<Rightarrow> jsnum \<Rightarrow> bool" where
  "js_gt a b = js_lt b a"

definition js_ge :: "jsnum \<Rightarrow> jsnum \<Rightarrow> bool" where
  "js_ge a b = js_le b a"

fun js_abs :: "jsnum \<Rightarrow> jsnum" where
  "js_abs NaN = NaN"
| "js_abs NegInf = PosInf"
| "js_abs PosInf = PosInf"
| "js_abs (Fin a) = Fin \<bar>a\<bar>"

fun js_round :: "jsnum \<Rightarrow> jsnum" where
  "js_round (Fin a) = Fin (of_int \<lfloor>a + 1 / 2\<rfloor>)"
| "js_round v = v"

text \<open>
  The operations that round their result are not computed here. They are the fields of
  a record that every function of the analysis takes as its first argument: sum,
  difference, product, quotient, \<^verbatim>\<open>Math.pow(x, 2)\<close>, square root, arctangent,
  \<^verbatim>\<open>Math.atan2\<close> and the constant \<^verbatim>\<open>Math.PI\<close>. What is proved of the analysis holds for
  every such record, the operations of double arithmetic among them.
\<close>

record double_ops =
  fadd :: "jsnum \<Rightarrow> jsnum \<Rightarrow> jsnum"
  fsub :: "jsnum \<Rightarrow> jsnum \<Rightarrow> jsnum"
  fmul :: "jsnum \<Rightarrow> jsnum \<Rightarrow> jsnum"
  fdiv :: "jsnum \<Rightarrow> jsnum \<Rightarrow> jsnum"
  fsquare :: "jsnum \<Rightarrow> jsnum"
  fsqrt :: "jsnum \<Rightarrow> jsnum"
  fatan :: "jsnum \<Rightarrow> jsnum"
  fatan2 :: "jsnum \<Rightarrow> jsnum \<Rightarrow> jsnum"
  fPI :: jsnum

section \<open>Geometry of the landmarks\<close>

text \<open>
  A detection carries the five regions that the analysis reads through the accessors of
  the landmark object, the detector's score and the names of the expressions sorted by
  probability. Reading a coordinate of a point that a region does not have throws a
  TypeError in the source; the lookups below return \<open>None\<close> there.
\<close>

record point =
  px :: jsnum
  py :: jsnum

record detection =
  getLeftEye :: "point list"
  getRightEye :: "point list"
  getMouth :: "point list"
  getNose :: "point list"
  getJawOutline :: "point list"
  score :: jsnum
  asSortedArray :: "string list"

record head_pose =
  yaw :: jsnum
  pitch :: jsnum
  roll :: jsnum

definition at_index :: "'a list \<Rightarrow> nat \<Rightarrow> 'a option" where
  "at_index xs i = (if i < length xs then Some (xs ! i) else None)"

definition euclideanDistance :: "double_ops \<Rightarrow> point \<Rightarrow> point \<Rightarrow> jsnum" where
  "euclideanDistance D a b =
    fsqrt D (fadd D (fsquare D (fsub D (px a) (px b))) (fsquare D (fsub D (py a) (py b))))"

definition computeAdvancedEAR :: "double_ops \<Rightarrow> point list \<Rightarrow> jsnum" where
  "computeAdvancedEAR D eye =
    (if length eye < 6 then Fin 0.25
     else
       (let vertical1 = euclideanDistance D (eye ! 1) (eye ! 5);
            vertical2 = euclideanDistance D (eye ! 2) (eye ! 4);
            horizontal = euclideanDistance D (eye ! 0) (eye ! 3)
        in fdiv D (fadd D vertical1 vertical2) (fmul D (Fin 2.0) horizontal)))"

definition computeMAR :: "double_ops \<Rightarrow> point list \<Rightarrow> jsnum" where
  "computeMAR D mouth =
    (if length mouth < 20 then Fin 0
     else
       (let vertical1 = euclideanDistance D (mouth ! 13) (mouth ! 19);
            vertical2 = euclideanDistance D (mouth ! 14) (mouth ! 18);
            vertical3 = euclideanDistance D (mouth ! 15) (mouth ! 17);
            horizontal = euclideanDistance D (mouth ! 12) (mouth ! 16)
        in fdiv D (fadd D (fadd D vertical1 vertical2) vertical3) (fmul D (Fin 3.0) horizontal)))"

definition estimateHeadPose :: "double_ops \<Rightarrow> detection \<Rightarrow> head_pose option" where
  "estimateHeadPose D landmarks =
    (case (at_index (getNose landmarks) 3, at_index (getLeftEye landmarks) 0,
           at_index (getRightEye landmarks) 3, at_index (getMouth landmarks) 0,
           at_index (getMouth landmarks) 6) of
       (Some noseTip, Some leftEyeCorner, Some rightEyeCorner, Some leftMouth, Some rightMouth) \<Rightarrow>
         (let eyeCenterX = fdiv D (fadd D (px leftEyeCorner) (px rightEyeCorner)) (Fin 2);
              eyeCenterY = fdiv D (fadd D (py leftEyeCorner) (py rightEyeCorner)) (Fin 2);
              noseToEyeCenter = fsub D (px noseTip) eyeCenterX;
              eyeToNose = fsub D (py noseTip) eyeCenterY;
              noseToMouth =
                js_abs (fsub D (py noseTip)
                               (fdiv D (fadd D (py leftMouth) (py rightMouth)) (Fin 2)));
              eyeSlope = fdiv D (fsub D (py rightEyeCorner) (py leftEyeCorner))
                                (fsub D (px rightEyeCorner) (px leftEyeCorner));
              degrees = fdiv D (Fin 180) (fPI D)
          in Some
            \<lparr>yaw = fmul D (fatan2 D noseToEyeCenter
                                   (js_abs (fsub D (px leftEyeCorner) (px rightEyeCorner))))
                          degrees,
             pitch = fmul D (fatan2 D eyeToNose noseToMouth) degrees,
             roll = fmul D (fatan D eyeSlope) degrees\<rparr>)
     | _ \<Rightarrow> None)"

text \<open>
  The region accessors always return an array, which is truthy even when empty, so the
  test that returns \<^verbatim>\<open>'unknown'\<close> never succeeds and has no branch here. The sums run
  from 0 through the points in their order.
\<close>

definition advancedGazeEstimation :: "double_ops \<Rightarrow> detection \<Rightarrow> string option" where
  "advancedGazeEstimation D landmarks =
    (let leftEye = getLeftEye landmarks;
         rightEye = getRightEye landmarks;
         nose = getNose landmarks;
         leftEyeCenterX = fdiv D (foldl (fadd D) (Fin 0) (map px leftEye))
                                 (Fin (real (length leftEye)));
         leftEyeCenterY = fdiv D (foldl (fadd D) (Fin 0) (map py leftEye))
                                 (Fin (real (length leftEye)));
         rightEyeCenterX = fdiv D (foldl (fadd D) (Fin 0) (map px rightEye))
                                  (Fin (real (length rightEye)));
         rightEyeCenterY = fdiv D (foldl (fadd D) (Fin 0) (map py rightEye))
                                  (Fin (real (length rightEye)))
     in case at_index nose 3 of
          None \<Rightarrow> None
        | Some noseTip \<Rightarrow>
           (let eyeCenterX = fdiv D (fadd D leftEyeCenterX rightEyeCenterX) (Fin 2);
                eyeCenterY = fdiv D (fadd D leftEyeCenterY rightEyeCenterY) (Fin 2);
                gazeVectorX = fsub D (px noseTip) eyeCenterX;
                gazeVectorY = fsub D (py noseTip) eyeCenterY;
                horizontalThreshold = Fin 8;
                verticalThreshold = Fin 6
            in Some
              (if js_gt (js_abs gazeVectorX) horizontalThreshold then
                 (if js_gt gazeVectorX (Fin 0) then ''right'' else ''left'')
               else if js_gt (js_abs gazeVectorY) verticalThreshold then
                 (if js_gt gazeVectorY (Fin 0) then ''down'' else ''up'')
               else ''center'')))"

section \<open>Scoring\<close>

definition calculateAttentionScore ::
    "double_ops \<Rightarrow> jsnum \<Rightarrow> jsnum \<Rightarrow> head_pose \<Rightarrow> string \<Rightarrow> jsnum \<Rightarrow> int" where
  "calculateAttentionScore D ear mar headPose gazeDirection blinkRate =
    (let score0 = (100 :: int);
         score1 = (if js_lt ear (Fin 0.15) then score0 - 40
                   else if js_lt ear (Fin 0.20) then score0 - 25
                   else if js_lt ear (Fin 0.25) then score0 - 10
                   else score0);
         score2 = (if js_gt mar (Fin 0.7) then score1 - 30
                   else if js_gt mar (Fin 0.5) then score1 - 15
                   else score1);
         totalHeadMovement =
           fadd D (fadd D (js_abs (yaw headPose)) (js_abs (pitch headPose)))
                  (js_abs (roll headPose));
         score3 = (if js_gt totalHeadMovement (Fin 45) then score2 - 25
                   else if js_gt totalHeadMovement (Fin 25) then score2 - 15
                   else score2);
         score4 = (if gazeDirection \<noteq> ''center'' then score3 - 20 else score3);
         score5 = (if js_lt blinkRate (Fin 8) then score4 - 35
                   else if js_lt blinkRate (Fin 12) then score4 - 20
                   else if js_gt blinkRate (Fin 35) then score4 - 25
                   else if js_gt blinkRate (Fin 25) then score4 - 10
                   else score4)
     in max 0 (min 100 score5))"

datatype fatigue_level = Low | Medium | High

definition assessFatigueLevel :: "int \<Rightarrow> jsnum \<Rightarrow> nat \<Rightarrow> fatigue_level" where
  "assessFatigueLevel attentionScore ear consecutiveDrowsyFrames =
    (if attentionScore < 30 \<or> js_lt ear (Fin 0.15) \<or> consecutiveDrowsyFrames > 10 then High
     else if attentionScore < 60 \<or> js_lt ear (Fin 0.20) \<or> consecutiveDrowsyFrames > 5 then Medium
     else Low)"

text \<open>Only the flag of the result is modelled; the status text is used for logging alone.\<close>

definition assessDrowsinessFromBlinks :: "nat \<Rightarrow> bool" where
  "assessDrowsinessFromBlinks blinksPerMinute =
    (if blinksPerMinute < 8 then True
     else if blinksPerMinute < 12 then True
     else if blinksPerMinute \<le> 25 then False
     else if blinksPerMinute \<le> 35 then False
     else False)"

section \<open>The state of the detection hook\<close>

text \<open>
  The \<^verbatim>\<open>useState\<close> and \<^verbatim>\<open>useRef\<close> cells of \<^verbatim>\<open>useFaceDetection\<close> that the analysis
  reads or writes; timestamps are \<^verbatim>\<open>Date.now()\<close> milliseconds. The cells used only
  for drawing (canvas, smoothed boxes, last full detections) are left out.

  A state variable is a constant of the render that created a function. A callback
  therefore reads two states: the \<^emph>\<open>captured\<close> one, which holds the values of the state
  variables in the render that created it, and the \<^emph>\<open>live\<close> one, which the setters
  write and which a callback reads only through a ref or through the argument of a
  functional update. The interval callback of the sampling loop is created once, when
  \<^verbatim>\<open>startDetection\<close> runs, and \<^verbatim>\<open>startDetection\<close> returns at once while detection
  is running: for a whole detection session the captured state of the loop, and of the
  \<^verbatim>\<open>detectBlink\<close> it calls, is the one of the render that started it.
\<close>

record det_state =
  isDetecting :: bool
  isDetectingRef :: bool
  detectionIntervalRef :: bool
  animationFrameRef :: bool
  frameCountRef :: nat
  lastDetectionTime :: int
  consecutiveDrowsyFrames :: nat
  earHistory :: "jsnum list"
  attentionHistory :: "int list"
  blinkTimestamps :: "int list"
  isEyeClosed :: bool
  lastBlinkTime :: int

subsection \<open>detectBlink\<close>

definition BLINK_THRESHOLD :: jsnum where
  "BLINK_THRESHOLD = Fin 0.25"

definition MIN_BLINK_DURATION :: int where
  "MIN_BLINK_DURATION = 100"

definition MAX_BLINK_DURATION :: int where
  "MAX_BLINK_DURATION = 500"

text \<open>
  One call, with the captured state \<open>c\<close> and the live state \<open>l\<close>. The eye flag, the
  last transition time and the log of the returned rate are read from \<open>c\<close>; the setters
  write \<open>l\<close>, and the functional update of the log reads the log of \<open>l\<close>.
\<close>

definition detectBlink :: "det_state \<Rightarrow> det_state \<Rightarrow> jsnum \<Rightarrow> int \<Rightarrow> nat \<times> det_state" where
  "detectBlink c l ear currentTime =
    (let l' =
       (if js_lt ear BLINK_THRESHOLD \<and> \<not> isEyeClosed c then
          l\<lparr>isEyeClosed := True, lastBlinkTime := currentTime\<rparr>
        else if js_ge ear BLINK_THRESHOLD \<and> isEyeClosed c then
          (let blinkDuration = currentTime - lastBlinkTime c;
               l1 = (if blinkDuration \<ge> MIN_BLINK_DURATION \<and> blinkDuration \<le> MAX_BLINK_DURATION
                     then l\<lparr>blinkTimestamps :=
                            filter (\<lambda>timestamp. currentTime - timestamp \<le> 60000)
                              (blinkTimestamps l @ [currentTime])\<rparr>
                     else l)
           in l1\<lparr>isEyeClosed := False\<rparr>)
        else l);
       recentBlinks = filter (\<lambda>timestamp. currentTime - timestamp \<le> 60000) (blinkTimestamps c)
     in (length recentBlinks, l'))"

text \<open>
  A stream of EAR samples in one detection session, each with the time at which it is
  processed: every call has the captured state of the session, and the live state is
  passed on from call to call.
\<close>

fun runBlink :: "det_state \<Rightarrow> det_state \<Rightarrow> (jsnum \<times> int) list \<Rightarrow> det_state" where
  "runBlink c l [] = l"
| "runBlink c l ((ear, t) # rest) = runBlink c (snd (detectBlink c l ear t)) rest"

text \<open>The initial values of the hook's cells, with the clock reading at mount.\<close>

definition initial_det :: "int \<Rightarrow> det_state" where
  "initial_det mountTime =
    \<lparr>isDetecting = False, isDetectingRef = False, detectionIntervalRef = False,
     animationFrameRef = False, frameCountRef = 0, lastDetectionTime = mountTime,
     consecutiveDrowsyFrames = 0, earHistory = [], attentionHistory = [],
     blinkTimestamps = [], isEyeClosed = False, lastBlinkTime = 0\<rparr>"

section \<open>The sampling loop\<close>

record FaceAnalysisResult =
  isDrowsy :: bool
  isAttentive :: bool
  emotion :: string
  ear :: jsnum
  mar :: jsnum
  gazeDirection :: string
  headPose :: head_pose
  blinkRate :: nat
  attentionScore :: int
  fatigueLevel :: fatigue_level
  confidence :: jsnum

text \<open>
  What one run of the interval callback hands to the component that uses the hook: a
  call of \<^verbatim>\<open>onFaceDetected\<close> with a result, a call of \<^verbatim>\<open>onFaceNotDetected\<close>, or nothing.
\<close>

datatype emitted = OnFaceDetected FaceAnalysisResult | OnFaceNotDetected | Nothing

definition takeLast :: "nat \<Rightarrow> 'a list \<Rightarrow> 'a list" where
  "takeLast n xs = drop (length xs - n) xs"

text \<open>
  The branch for a detected face, with the captured state \<open>c\<close> of the session and the
  live state \<open>l\<close>. The two histories and the count of drowsy frames that enters the
  fatigue level are read from \<open>c\<close>; the count that is incremented is the live one, the
  argument of a functional update. All clock readings of one run are taken as the same
  instant \<open>now\<close>. An exception thrown by the pose or gaze estimation is caught by the
  callback: nothing is emitted and the state keeps the updates made before it.
\<close>

definition analyzeFace ::
    "double_ops \<Rightarrow> det_state \<Rightarrow> det_state \<Rightarrow> int \<Rightarrow> detection \<Rightarrow> emitted \<times> det_state" where
  "analyzeFace D c l now desc =
    (let l0 = l\<lparr>lastDetectionTime := now\<rparr> in
     case estimateHeadPose D desc of
       None \<Rightarrow> (Nothing, l0)
     | Some pose \<Rightarrow>
        (let earValue = fdiv D (fadd D (computeAdvancedEAR D (getLeftEye desc))
                                       (computeAdvancedEAR D (getRightEye desc))) (Fin 2);
             marValue = computeMAR D (getMouth desc)
         in case advancedGazeEstimation D desc of
              None \<Rightarrow> (Nothing, l0)
            | Some gaze \<Rightarrow>
               (let emotionValue = (case asSortedArray desc of
                                      [] \<Rightarrow> ''neutral''
                                    | e # _ \<Rightarrow> if e = [] then ''neutral'' else e);
                    (rate, l1) = detectBlink c l0 earValue now;
                    isDrowsyFromBlinks = assessDrowsinessFromBlinks rate;
                    isDrowsyFromEyes = js_lt earValue (Fin 0.20);
                    isDrowsyFromMouth = js_gt marValue (Fin 0.4);
                    isDrowsyFromHead = js_gt (js_abs (pitch pose)) (Fin 25);
                    drowsy = (isDrowsyFromEyes \<or> isDrowsyFromMouth \<or> isDrowsyFromHead
                              \<or> isDrowsyFromBlinks);
                    l2 = l1\<lparr>consecutiveDrowsyFrames :=
                               (if drowsy then consecutiveDrowsyFrames l1 + 1 else 0),
                            earHistory := takeLast 30 (earHistory c @ [earValue])\<rparr>;
                    scoreValue = calculateAttentionScore D earValue marValue pose gaze
                                   (Fin (real rate));
                    fatigue = assessFatigueLevel scoreValue earValue (consecutiveDrowsyFrames c);
                    l3 = l2\<lparr>attentionHistory := takeLast 60 (attentionHistory c @ [scoreValue])\<rparr>
                in (OnFaceDetected
                      \<lparr>isDrowsy = drowsy, isAttentive = (scoreValue > 70),
                       emotion = emotionValue, ear = earValue, mar = marValue,
                       gazeDirection = gaze, headPose = pose, blinkRate = rate,
                       attentionScore = scoreValue, fatigueLevel = fatigue,
                       confidence = js_round (fmul D (score desc) (Fin 100))\<rparr>,
                    l3))))"

text \<open>
  One run of the interval callback. \<open>videoReady\<close> says that the video element exists
  and has enough data; \<open>detected\<close> is what the detector returned for the frame. The
  detecting flag and the frame counter are refs and are read live; the last detection
  time in the test of the branch without a face is the captured one. A run is taken to
  finish before the next one starts.
\<close>

definition sampleDetection ::
    "double_ops \<Rightarrow> det_state \<Rightarrow> det_state \<Rightarrow> bool \<Rightarrow> int \<Rightarrow> detection option
      \<Rightarrow> emitted \<times> det_state" where
  "sampleDetection D c l videoReady now detected =
    (if videoReady \<and> isDetectingRef l then
       (let l0 = l\<lparr>frameCountRef := frameCountRef l + 1\<rparr> in
        case detected of
          Some desc \<Rightarrow> analyzeFace D c l0 now desc
        | None \<Rightarrow>
            if now - lastDetectionTime c > 5000
            then (OnFaceNotDetected, l0\<lparr>lastDetectionTime := now\<rparr>)
            else (Nothing, l0))
     else (Nothing, l))"

text \<open>
  An absence episode in one detection session: consecutive runs in which the detector
  returns no face. The result lists the times at which \<^verbatim>\<open>onFaceNotDetected\<close> was
  called.
\<close>

fun absenceRun :: "double_ops \<Rightarrow> det_state \<Rightarrow> det_state \<Rightarrow> int list \<Rightarrow> int list" where
  "absenceRun D c l [] = []"
| "absenceRun D c l (t # ts) =
    (let (ev, l') = sampleDetection D c l True t None
     in (if ev = OnFaceNotDetected then [t] else []) @ absenceRun D c l' ts)"

text \<open>
  \<^verbatim>\<open>startDetection\<close>, once the video has data. \<open>ready\<close> says that the models are loaded
  and that the video and canvas elements exist with known dimensions. The state that
  the interval callback captures is the one before these updates.
\<close>

definition startDetection :: "det_state \<Rightarrow> bool \<Rightarrow> int \<Rightarrow> det_state" where
  "startDetection s ready now =
    (if ready \<and> \<not> isDetectingRef s
     then s\<lparr>isDetecting := True, isDetectingRef := True, lastDetectionTime := now,
            frameCountRef := 0, animationFrameRef := True, detectionIntervalRef := True\<rparr>
     else s)"


section \<open>The timer context\<close>

text \<open>
  Of a task only its identifier and title are used. The two local-storage entries are
  part of the state; a write to them is taken to succeed. The per-task times are a plain
  object. An assignment \<^verbatim>\<open>object[key] = value\<close> stores an own property, except for
  the key \<^verbatim>\<open>__proto__\<close> of an object without an own property of that name: there the
  assignment reaches the setter of the prototype, which ignores a number. Reading a key
  that is not an own property gives \<^verbatim>\<open>undefined\<close> or an inherited function or object;
  none of them is a number above 0, so a start on such a key begins at 0, as it does
  when nothing is stored.
\<close>

record task =
  task_id :: string
  title :: string

record saved_timer =
  saved_task :: "task option"
  saved_elapsed :: int
  saved_active :: bool
  saved_paused :: bool

record timer_ctx =
  activeTask :: "task option"
  isActive :: bool
  isPaused :: bool
  elapsedTime :: int
  startTime :: "int option"
  pausedTime :: int
  lastElapsedTime :: int
  taskTimes :: "string \<rightharpoonup> int"
  stored_task_times :: "(string \<rightharpoonup> int) option"
  stored_timer_state :: "saved_timer option"

datatype timer_phase = Idle | Running | Paused

definition phase :: "timer_ctx \<Rightarrow> timer_phase" where
  "phase t = (if \<not> isActive t then Idle else if isPaused t then Paused else Running)"


text \<open>
  The operations below are the ones of the latest render, as the buttons and the effects
  of the timer call them: they read and write the same state.
\<close>

definition startTimer :: "timer_ctx \<Rightarrow> task \<Rightarrow> int \<Rightarrow> timer_ctx" where
  "startTimer t tsk now =
    (let previousTimeForTask =
           (case taskTimes t (task_id tsk) of None \<Rightarrow> 0 | Some v \<Rightarrow> v);
         t1 = t\<lparr>activeTask := Some tsk, isActive := True, isPaused := False, pausedTime := 0\<rparr>
     in if previousTimeForTask > 0 then
          t1\<lparr>startTime := Some (now - previousTimeForTask),
             elapsedTime := previousTimeForTask,
             lastElapsedTime := previousTimeForTask\<rparr>
        else
          t1\<lparr>startTime := Some now, elapsedTime := 0, lastElapsedTime := 0\<rparr>)"

text \<open>
  The 10 ms interval that runs while the timer is active and not paused. A start time
  of 0 is falsy in the source and leaves the elapsed time alone.
\<close>

definition tick :: "timer_ctx \<Rightarrow> int \<Rightarrow> timer_ctx" where
  "tick t now =
    (if isActive t \<and> \<not> isPaused t then
       (case startTime t of
          None \<Rightarrow> t
        | Some st \<Rightarrow>
            if st = 0 then t
            else t\<lparr>elapsedTime := now - st, lastElapsedTime := now - st\<rparr>)
     else t)"

definition pauseTimer :: "timer_ctx \<Rightarrow> timer_ctx" where
  "pauseTimer t =
    (if isActive t \<and> \<not> isPaused t
     then t\<lparr>isPaused := True, lastElapsedTime := elapsedTime t\<rparr>
     else t)"

definition resumeTimer :: "timer_ctx \<Rightarrow> int \<Rightarrow> timer_ctx" where
  "resumeTimer t now =
    (if isPaused t
     then t\<lparr>startTime := Some (now - lastElapsedTime t), isPaused := False\<rparr>
     else t)"


definition resetTimer :: "timer_ctx \<Rightarrow> timer_ctx" where
  "resetTimer t =
    (let t1 = (case activeTask t of
                 Some tsk \<Rightarrow>
                   (let updatedTaskTimes = (taskTimes t)(task_id tsk := None)
                    in t\<lparr>taskTimes := updatedTaskTimes,
                         stored_task_times := Some updatedTaskTimes\<rparr>)
               | None \<Rightarrow> t)
     in t1\<lparr>activeTask := None, isActive := False, isPaused := False, elapsedTime := 0,
           lastElapsedTime := 0, startTime := None, pausedTime := 0,
           stored_timer_state := None\<rparr>)"



section \<open>The timer component and its presence gate\<close>







text \<open>The clamp to the valid EAR range that the specification speaks of.\<close>

definition spec_clamp :: "jsnum \<Rightarrow> jsnum" where
  "spec_clamp v =
    (case v of
       NaN \<Rightarrow> NaN
     | NegInf \<Rightarrow> Fin 0
     | PosInf \<Rightarrow> Fin 1
     | Fin r \<Rightarrow> Fin (max 0 (min 1 r)))"


section \<open>Example inputs\<close>

text \<open>
  Exact arithmetic on finite values, for the examples: the quotient of two numbers with
  its zero divisor, and the arctangent of a quotient by quadrant. On an infinite or NaN
  argument, which no example reaches, the operations return NaN. On the example face
  below the exact result of every operation is a double, so that double arithmetic
  computes the same, except for the quotient of 180 and \<open>\<pi>\<close>, which the example only
  multiplies by 0.
\<close>

definition js_div :: "real \<Rightarrow> real \<Rightarrow> jsnum" where
  "js_div a b =
    (if b = 0 then (if a = 0 then NaN else if 0 < a then PosInf else NegInf)
     else Fin (a / b))"

definition js_atan2 :: "real \<Rightarrow> real \<Rightarrow> real" where
  "js_atan2 y x =
    (if 0 < x then arctan (y / x)
     else if x < 0 then (if 0 \<le> y then arctan (y / x) + pi else arctan (y / x) - pi)
     else if 0 < y then pi / 2
     else if y < 0 then - (pi / 2)
     else 0)"

fun exact1 :: "(real \<Rightarrow> real) \<Rightarrow> jsnum \<Rightarrow> jsnum" where
  "exact1 f (Fin a) = Fin (f a)"
| "exact1 f _ = NaN"

fun exact2 :: "(real \<Rightarrow> real \<Rightarrow> real) \<Rightarrow> jsnum \<Rightarrow> jsnum \<Rightarrow> jsnum" where
  "exact2 f (Fin a) (Fin b) = Fin (f a b)"
| "exact2 f _ _ = NaN"

fun exact_div :: "jsnum \<Rightarrow> jsnum \<Rightarrow> jsnum" where
  "exact_div (Fin a) (Fin b) = js_div a b"
| "exact_div _ _ = NaN"

fun exact_sqrt :: "jsnum \<Rightarrow> jsnum" where
  "exact_sqrt (Fin a) = (if a < 0 then NaN else Fin (sqrt a))"
| "exact_sqrt _ = NaN"

definition example_ops :: double_ops where
  "example_ops =
    \<lparr>fadd = exact2 (\<lambda>a b. a + b), fsub = exact2 (\<lambda>a b. a - b), fmul = exact2 (\<lambda>a b. a * b),
     fdiv = exact_div, fsquare = exact1 (\<lambda>a. a * a), fsqrt = exact_sqrt,
     fatan = exact1 arctan, fatan2 = exact2 js_atan2, fPI = Fin pi\<rparr>"

text \<open>
  A face looking straight ahead whose left eye has the aspect ratio 0.25 and whose right
  eye has 0.5, with a closed mouth.
\<close>

definition pt :: "real \<Rightarrow> real \<Rightarrow> point" where
  "pt a b = \<lparr>px = Fin a, py = Fin b\<rparr>"

definition example_face :: detection where
  "example_face =
    \<lparr>getLeftEye = [pt 0 0, pt 2 1, pt 6 1, pt 8 0, pt 6 (- 1), pt 2 (- 1)],
     getRightEye = [pt 20 0, pt 22 2, pt 26 2, pt 28 0, pt 26 (- 2), pt 22 (- 2)],
     getMouth = [pt 10 8, pt 11 7, pt 13 6, pt 14 7, pt 15 6, pt 17 7, pt 18 8,
                 pt 17 10, pt 15 11, pt 14 11, pt 13 11, pt 11 10,
                 pt 10 8, pt 12 7, pt 14 7, pt 16 7, pt 18 8, pt 16 9, pt 14 9,
                 pt 12 9],
     getNose = [pt 14 (- 6), pt 14 (- 4), pt 14 (- 2), pt 14 0],
     getJawOutline = [pt (- 5) 0, pt (- 4) 6, pt (- 2) 12, pt 1 17, pt 5 21, pt 9 24,
                      pt 12 25, pt 14 26, pt 15 26],
     score = Fin 0.75,
     asSortedArray = [''neutral'', ''happy'']\<rparr>"




section \<open>Blink tracking\<close>

text \<open>
  The branch that ends a blink, for one call: it runs when the sample is at or above the
  threshold and the captured flag says that the eye is closed, and it appends the time
  to the live log exactly when the duration since the captured transition time lies
  between 100 ms and 500 ms.
\<close>

lemma detectBlink_open_branch:
  "js_ge e BLINK_THRESHOLD \<Longrightarrow> isEyeClosed c \<Longrightarrow>
   snd (detectBlink c l e t) =
     (if 100 \<le> t - lastBlinkTime c \<and> t - lastBlinkTime c \<le> 500
      then l\<lparr>blinkTimestamps := filter (\<lambda>u. t - u \<le> 60000) (blinkTimestamps l) @ [t],
             isEyeClosed := False\<rparr>
      else l\<lparr>isEyeClosed := False\<rparr>)"
proof -
  assume a: "js_ge e BLINK_THRESHOLD" "isEyeClosed c"
  have "\<not> js_lt e BLINK_THRESHOLD"
    using a(1) by (cases e) (simp_all add: js_ge_def BLINK_THRESHOLD_def)
  with a show ?thesis
    by (simp add: detectBlink_def Let_def MIN_BLINK_DURATION_def MAX_BLINK_DURATION_def)
qed

text \<open>
  In a session whose captured eye flag is off, as it is in the initial state and after
  every stop, that branch never runs: no call changes the log.
\<close>

lemma detectBlink_open_capture_keeps_log:
  "\<not> isEyeClosed c \<Longrightarrow> blinkTimestamps (snd (detectBlink c l e t)) = blinkTimestamps l"
  by (simp add: detectBlink_def Let_def)

lemma runBlink_open_capture_keeps_log:
  "\<not> isEyeClosed c \<Longrightarrow> blinkTimestamps (runBlink c l samples) = blinkTimestamps l"
  by (induction samples arbitrary: l) (auto simp: detectBlink_open_capture_keeps_log)


text \<open>
  Claim C1 says that a blink episode whose closed duration lies between 100 ms and
  500 ms appends its end time to the log, so that a cycle of 200 ms records one blink.
  In a detection session started from the initial state the cycle below 0.25 at 1000,
  still below at 1150 and back above at 1200 records nothing: every call of the session
  reads the eye flag of the render that started it, which is off, so the sample at 1200
  does not take the branch that ends a blink. The log stays empty and the live flag stays
  on.
\<close>

theorem session_blink_cycle_records_nothing:
  "blinkTimestamps
     (runBlink (initial_det 0) (startDetection (initial_det 0) True 0)
        [(Fin 0.2, 1000), (Fin 0.1, 1150), (Fin 0.3, 1200)]) = []
   \<and> isEyeClosed
     (runBlink (initial_det 0) (startDetection (initial_det 0) True 0)
        [(Fin 0.2, 1000), (Fin 0.1, 1150), (Fin 0.3, 1200)])
   \<and> lastBlinkTime
     (runBlink (initial_det 0) (startDetection (initial_det 0) True 0)
        [(Fin 0.2, 1000), (Fin 0.1, 1150), (Fin 0.3, 1200)]) = 1150"
  by (simp add: detectBlink_def initial_det_def startDetection_def Let_def
      BLINK_THRESHOLD_def js_ge_def)


lemma spec_clamp_lt_threshold:
  "v \<noteq> NaN \<Longrightarrow> js_lt (spec_clamp v) BLINK_THRESHOLD = js_lt v BLINK_THRESHOLD"
  by (cases v) (auto simp: spec_clamp_def BLINK_THRESHOLD_def)

lemma spec_clamp_ge_threshold:
  "v \<noteq> NaN \<Longrightarrow> js_ge (spec_clamp v) BLINK_THRESHOLD = js_ge v BLINK_THRESHOLD"
  by (cases v) (auto simp: spec_clamp_def BLINK_THRESHOLD_def js_ge_def)

lemma spec_clamp_in_range:
  "v \<noteq> NaN \<Longrightarrow> js_le (Fin 0) (spec_clamp v) \<and> js_le (spec_clamp v) (Fin 1)"
  by (cases v) (auto simp: spec_clamp_def)

text \<open>
  Claim C8, as the code has it. The tracker has no failing branch and contains no clamp.
  An input that is not NaN, in the range or not, is treated exactly as its clamp to
  \<open>[0, 1]\<close> would be: state update and returned rate are the same. A NaN input is not
  mapped into the range: it satisfies neither comparison, so the state is left as it is
  and the rate of the log is returned. This holds for every captured and every live
  state of the call.
\<close>

theorem blink_tracker_total_on_malformed_input:
  "(v \<noteq> NaN \<longrightarrow>
      js_le (Fin 0) (spec_clamp v) \<and> js_le (spec_clamp v) (Fin 1)
      \<and> detectBlink c l v now = detectBlink c l (spec_clamp v) now)
   \<and> detectBlink c l NaN now =
       (length (filter (\<lambda>t. now - t \<le> 60000) (blinkTimestamps c)), l)"
proof -
  have "detectBlink c l v now = detectBlink c l (spec_clamp v) now" if "v \<noteq> NaN"
    unfolding detectBlink_def
    by (simp only: spec_clamp_lt_threshold[OF that] spec_clamp_ge_threshold[OF that])
  moreover have "detectBlink c l NaN now =
       (length (filter (\<lambda>t. now - t \<le> 60000) (blinkTimestamps c)), l)"
    by (simp add: detectBlink_def Let_def js_ge_def BLINK_THRESHOLD_def)
  ultimately show ?thesis
    using spec_clamp_in_range[of v] by blast
qed

theorem blink_tracker_total_on_malformed_input_witness:
  "detectBlink (initial_det 0) (initial_det 0) (Fin 1.7) 1000
     = detectBlink (initial_det 0) (initial_det 0) (Fin 1) 1000
   \<and> detectBlink (initial_det 0) (initial_det 0) (Fin (- 3)) 1000
     = detectBlink (initial_det 0) (initial_det 0) (Fin 0) 1000
   \<and> detectBlink (initial_det 0) (initial_det 0) PosInf 1000
     = detectBlink (initial_det 0) (initial_det 0) (Fin 1) 1000"
proof -
  have a: "Fin 1.7 \<noteq> NaN" "Fin (- 3) \<noteq> NaN" "PosInf \<noteq> NaN" by simp_all
  show ?thesis
    using blink_tracker_total_on_malformed_input
            [of "Fin 1.7" "initial_det 0" "initial_det 0" 1000]
      blink_tracker_total_on_malformed_input
            [of "Fin (- 3)" "initial_det 0" "initial_det 0" 1000]
      blink_tracker_total_on_malformed_input
            [of PosInf "initial_det 0" "initial_det 0" 1000] a
    by (simp add: spec_clamp_def)
qed

text \<open>
  Claim C8 as stated fails for NaN: no value of the range \<open>[0, 1]\<close> is treated as NaN is.
  With the eye open NaN leaves it open, as only values from 0.25 on do; with the eye
  closed NaN leaves it closed, as only values below 0.25 do.
\<close>

theorem nan_is_not_clamped_counterexample:
  "\<not> (\<exists>v. js_le (Fin 0) v \<and> js_le v (Fin 1)
        \<and> detectBlink (initial_det 0) (initial_det 0) NaN 1000
          = detectBlink (initial_det 0) (initial_det 0) v 1000
        \<and> detectBlink ((initial_det 0)\<lparr>isEyeClosed := True, lastBlinkTime := 800\<rparr>)
            ((initial_det 0)\<lparr>isEyeClosed := True, lastBlinkTime := 800\<rparr>) NaN 1000
          = detectBlink ((initial_det 0)\<lparr>isEyeClosed := True, lastBlinkTime := 800\<rparr>)
              ((initial_det 0)\<lparr>isEyeClosed := True, lastBlinkTime := 800\<rparr>) v 1000)"
proof
  let ?o = "initial_det 0"
  let ?c = "(initial_det 0)\<lparr>isEyeClosed := True, lastBlinkTime := 800\<rparr>"
  assume "\<exists>v. js_le (Fin 0) v \<and> js_le v (Fin 1)
        \<and> detectBlink ?o ?o NaN 1000 = detectBlink ?o ?o v 1000
        \<and> detectBlink ?c ?c NaN 1000 = detectBlink ?c ?c v 1000"
  then obtain v where r: "js_le (Fin 0) v" "js_le v (Fin 1)"
    and o: "detectBlink ?o ?o NaN 1000 = detectBlink ?o ?o v 1000"
    and c: "detectBlink ?c ?c NaN 1000 = detectBlink ?c ?c v 1000"
    by blast
  from r obtain x where v: "v = Fin x" by (cases v) simp_all
  have no: "\<not> isEyeClosed (snd (detectBlink ?o ?o NaN 1000))"
    by (simp add: detectBlink_def Let_def js_ge_def BLINK_THRESHOLD_def initial_det_def)
  have nc: "isEyeClosed (snd (detectBlink ?c ?c NaN 1000))"
    by (simp add: detectBlink_def Let_def js_ge_def BLINK_THRESHOLD_def initial_det_def)
  show False
  proof (cases "x < 0.25")
    case True
    then have "isEyeClosed (snd (detectBlink ?o ?o v 1000))"
      by (simp add: v detectBlink_def Let_def js_ge_def BLINK_THRESHOLD_def initial_det_def)
    with no o show False by simp
  next
    case False
    then have "\<not> isEyeClosed (snd (detectBlink ?c ?c v 1000))"
      by (simp add: v detectBlink_def Let_def js_ge_def BLINK_THRESHOLD_def initial_det_def
          MIN_BLINK_DURATION_def MAX_BLINK_DURATION_def)
    with nc c show False by simp
  qed
qed

section \<open>The attention score\<close>

lemma js_gt_mono: "js_gt m1 c \<Longrightarrow> js_le m1 m2 \<Longrightarrow> js_gt m2 c"
  by (cases m1; cases m2; cases c) (simp_all add: js_gt_def)

lemma clamp_score_range: "0 \<le> max 0 (min 100 (x::int)) \<and> max 0 (min 100 x) \<le> 100"
  by simp

text \<open>
  The score is a monotone function of the value that the MAR stage leaves: the stages
  after it subtract amounts that do not depend on the running score, and the final clamp
  is monotone.
\<close>

lemma score_stages:
  "\<exists>c F. mono F \<and> (\<forall>m. calculateAttentionScore D e m hp g b =
     F (if js_gt m (Fin 0.7) then c - 30 else if js_gt m (Fin 0.5) then c - 15 else (c::int)))"
proof -
  define c :: int where "c = (if js_lt e (Fin 0.15) then 100 - 40
                   else if js_lt e (Fin 0.20) then 100 - 25
                   else if js_lt e (Fin 0.25) then 100 - 10
                   else 100)"
  define s3 :: "int \<Rightarrow> int" where "s3 = (\<lambda>x.
     if js_gt (fadd D (fadd D (js_abs (yaw hp)) (js_abs (pitch hp))) (js_abs (roll hp))) (Fin 45)
     then x - 25
     else if js_gt (fadd D (fadd D (js_abs (yaw hp)) (js_abs (pitch hp))) (js_abs (roll hp))) (Fin 25)
     then x - 15
     else x)"
  define s4 :: "int \<Rightarrow> int" where "s4 = (\<lambda>x. if g \<noteq> ''center'' then x - 20 else x)"
  define s5 :: "int \<Rightarrow> int" where "s5 = (\<lambda>x. if js_lt b (Fin 8) then x - 35
                   else if js_lt b (Fin 12) then x - 20
                   else if js_gt b (Fin 35) then x - 25
                   else if js_gt b (Fin 25) then x - 10
                   else x)"
  define F :: "int \<Rightarrow> int" where "F = (\<lambda>x. max 0 (min 100 (s5 (s4 (s3 x)))))"
  have m3: "mono s3" by (rule monoI) (simp add: s3_def)
  have m4: "mono s4" by (rule monoI) (simp add: s4_def)
  have m5: "mono s5" by (rule monoI) (simp add: s5_def)
  have mF: "mono F"
  proof (rule monoI)
    fix x y :: int
    assume "x \<le> y"
    then have "s5 (s4 (s3 x)) \<le> s5 (s4 (s3 y))"
      using m3 m4 m5 by (blast dest: monoD)
    then show "F x \<le> F y" by (simp add: F_def)
  qed
  have "\<forall>m. calculateAttentionScore D e m hp g b =
     F (if js_gt m (Fin 0.7) then c - 30 else if js_gt m (Fin 0.5) then c - 15 else c)"
    unfolding calculateAttentionScore_def Let_def F_def s3_def s4_def s5_def c_def
    by (rule allI) (rule refl)
  with mF show ?thesis by blast
qed

text \<open>
  Claim C7. For all inputs, NaN and the infinities among them, and whatever the sum of
  the head angles rounds to, the attention score lies in \<open>[0, 100]\<close>. With the other
  inputs fixed, the score does not increase when \<open>mar\<close> grows from a value above 0.5.
\<close>

theorem attention_score_range_and_mar_monotone:
  "0 \<le> calculateAttentionScore D e m hp g b
   \<and> calculateAttentionScore D e m hp g b \<le> 100
   \<and> (js_gt m1 (Fin 0.5) \<and> js_le m1 m2 \<longrightarrow>
        calculateAttentionScore D e m2 hp g b \<le> calculateAttentionScore D e m1 hp g b)"
proof -
  have range: "0 \<le> calculateAttentionScore D e m hp g b
               \<and> calculateAttentionScore D e m hp g b \<le> 100"
    unfolding calculateAttentionScore_def Let_def by (rule clamp_score_range)
  have "calculateAttentionScore D e m2 hp g b \<le> calculateAttentionScore D e m1 hp g b"
    if a: "js_gt m1 (Fin 0.5)" "js_le m1 m2"
  proof -
    obtain c F where mF: "mono F" and sh: "\<And>m. calculateAttentionScore D e m hp g b =
       F (if js_gt m (Fin 0.7) then c - 30 else if js_gt m (Fin 0.5) then c - 15 else (c::int))"
      using score_stages[of D e hp g b] by blast
    have 1: "js_gt m2 (Fin 0.5)" using a by (rule js_gt_mono)
    have 2: "js_gt m1 (Fin 0.7) \<Longrightarrow> js_gt m2 (Fin 0.7)"
      using a(2) by (rule js_gt_mono[rotated])
    have "(if js_gt m2 (Fin 0.7) then c - 30 else if js_gt m2 (Fin 0.5) then c - 15 else c)
        \<le> (if js_gt m1 (Fin 0.7) then c - 30 else if js_gt m1 (Fin 0.5) then c - 15 else c)"
      using a(1) 1 2 by auto
    then show ?thesis
      unfolding sh[of m1] sh[of m2] using mF by (rule monoD[rotated])
  qed
  with range show ?thesis by blast
qed

lemma example_ops_add_zero: "fadd example_ops (Fin 0) (Fin 0) = Fin 0"
  by (simp add: example_ops_def)

text \<open>
  An attentive frame with the mouth at 0.6 scores 85; at 0.8 it scores 70.
\<close>

theorem attention_score_range_and_mar_monotone_witness:
  "js_gt (Fin 0.6) (Fin 0.5) \<and> js_le (Fin 0.6) (Fin 0.8)
   \<and> calculateAttentionScore example_ops (Fin 0.3) (Fin 0.8)
        \<lparr>yaw = Fin 0, pitch = Fin 0, roll = Fin 0\<rparr> ''center'' (Fin 15) = 70
   \<and> calculateAttentionScore example_ops (Fin 0.3) (Fin 0.6)
        \<lparr>yaw = Fin 0, pitch = Fin 0, roll = Fin 0\<rparr> ''center'' (Fin 15) = 85
   \<and> calculateAttentionScore example_ops (Fin 0.3) (Fin 0.8)
        \<lparr>yaw = Fin 0, pitch = Fin 0, roll = Fin 0\<rparr> ''center'' (Fin 15)
      \<le> calculateAttentionScore example_ops (Fin 0.3) (Fin 0.6)
        \<lparr>yaw = Fin 0, pitch = Fin 0, roll = Fin 0\<rparr> ''center'' (Fin 15)"
proof -
  have h: "js_gt (Fin 0.6) (Fin 0.5) \<and> js_le (Fin 0.6) (Fin 0.8)"
    by (simp add: js_gt_def)
  have v8: "calculateAttentionScore example_ops (Fin 0.3) (Fin 0.8)
        \<lparr>yaw = Fin 0, pitch = Fin 0, roll = Fin 0\<rparr> ''center'' (Fin 15) = 70"
    by (simp add: calculateAttentionScore_def Let_def js_gt_def example_ops_add_zero)
  have v6: "calculateAttentionScore example_ops (Fin 0.3) (Fin 0.6)
        \<lparr>yaw = Fin 0, pitch = Fin 0, roll = Fin 0\<rparr> ''center'' (Fin 15) = 85"
    by (simp add: calculateAttentionScore_def Let_def js_gt_def example_ops_add_zero)
  from attention_score_range_and_mar_monotone
         [of example_ops "Fin 0.3" "Fin 0.8" "\<lparr>yaw = Fin 0, pitch = Fin 0, roll = Fin 0\<rparr>"
             "''center''" "Fin 15" "Fin 0.6" "Fin 0.8"] h
  have "calculateAttentionScore example_ops (Fin 0.3) (Fin 0.8)
        \<lparr>yaw = Fin 0, pitch = Fin 0, roll = Fin 0\<rparr> ''center'' (Fin 15)
      \<le> calculateAttentionScore example_ops (Fin 0.3) (Fin 0.6)
        \<lparr>yaw = Fin 0, pitch = Fin 0, roll = Fin 0\<rparr> ''center'' (Fin 15)"
    by blast
  with h v8 v6 show ?thesis by blast
qed

section \<open>The timer\<close>





text \<open>
  Claim C6. Let \<open>E\<close> be the time stored for a task, 0 if none is stored; a stored time
  is an accumulated duration, so \<open>0 \<le> E\<close>, and it is less than the clock reading \<open>now\<close>.
  Starting the timer on the task at \<open>now\<close> enters Running with the task active, the
  elapsed time \<open>E\<close> and the start time \<open>now - E\<close>. A later tick at \<open>now'\<close> sets the
  elapsed time to \<open>now'\<close> minus the start time, and pausing after a tick \<open>d\<close> ms after the
  start leaves the timer Paused with the elapsed time \<open>E + d\<close>.
\<close>

theorem start_resumes_from_stored_time:
  assumes "E = (case taskTimes t (task_id tsk) of None \<Rightarrow> 0 | Some v \<Rightarrow> v)"
    and "0 \<le> E"
    and "E < now"
  shows "phase (startTimer t tsk now) = Running
         \<and> activeTask (startTimer t tsk now) = Some tsk
         \<and> elapsedTime (startTimer t tsk now) = E
         \<and> startTime (startTimer t tsk now) = Some (now - E)
         \<and> elapsedTime (tick (startTimer t tsk now) now') = now' - (now - E)
         \<and> phase (pauseTimer (tick (startTimer t tsk now) (now + d))) = Paused
         \<and> elapsedTime (pauseTimer (tick (startTimer t tsk now) (now + d))) = E + d"
proof -
  let ?s = "startTimer t tsk now"
  have s: "isActive ?s" "\<not> isPaused ?s" "activeTask ?s = Some tsk"
    "elapsedTime ?s = E" "startTime ?s = Some (now - E)"
    using assms(1,2) by (auto simp: startTimer_def Let_def)
  have nz: "now - E \<noteq> 0" using assms(3) by simp
  have k: "tick ?s u = ?s\<lparr>elapsedTime := u - (now - E), lastElapsedTime := u - (now - E)\<rparr>" for u
    using s nz by (simp add: tick_def)
  show ?thesis
    using s by (simp add: k pauseTimer_def phase_def)
qed

text \<open>
  The scenario of the specification: 120000 ms stored for the task, a start at clock
  reading 5000000, a tick 3000 ms later and a pause give 123000 ms, Paused.
\<close>

theorem start_resumes_from_stored_time_witness:
  "elapsedTime (pauseTimer (tick (startTimer
      \<lparr>activeTask = None, isActive = False, isPaused = False, elapsedTime = 0,
       startTime = None, pausedTime = 0, lastElapsedTime = 0,
       taskTimes = [''Study'' \<mapsto> 120000], stored_task_times = None,
       stored_timer_state = None\<rparr>
      \<lparr>task_id = ''Study'', title = ''Study''\<rparr> 5000000) (5000000 + 3000))) = 123000
   \<and> phase (pauseTimer (tick (startTimer
      \<lparr>activeTask = None, isActive = False, isPaused = False, elapsedTime = 0,
       startTime = None, pausedTime = 0, lastElapsedTime = 0,
       taskTimes = [''Study'' \<mapsto> 120000], stored_task_times = None,
       stored_timer_state = None\<rparr>
      \<lparr>task_id = ''Study'', title = ''Study''\<rparr> 5000000) (5000000 + 3000))) = Paused"
proof -
  let ?t = "\<lparr>activeTask = None, isActive = False, isPaused = False, elapsedTime = 0,
       startTime = None, pausedTime = 0, lastElapsedTime = 0,
       taskTimes = [''Study'' \<mapsto> 120000], stored_task_times = None,
       stored_timer_state = None\<rparr>"
  let ?k = "\<lparr>task_id = ''Study'', title = ''Study''\<rparr>"
  have h1: "(120000::int) = (case taskTimes ?t (task_id ?k) of None \<Rightarrow> 0 | Some v \<Rightarrow> v)"
    by simp
  have h2: "(0::int) \<le> 120000" by simp
  have h3: "(120000::int) < 5000000" by simp
  from start_resumes_from_stored_time[OF h1 h2 h3, of 0 3000]
  show ?thesis by simp
qed

section \<open>Stopping the detection\<close>


section \<open>The analysis of a frame\<close>

lemma detectBlink_ignores_sampling_cells:
  "fst (detectBlink c (l\<lparr>frameCountRef := f, lastDetectionTime := u\<rparr>) e t)
     = fst (detectBlink c l e t)"
  "snd (detectBlink c (l\<lparr>frameCountRef := f, lastDetectionTime := u\<rparr>) e t)
     = (snd (detectBlink c l e t))\<lparr>frameCountRef := f, lastDetectionTime := u\<rparr>"
  by (simp_all add: detectBlink_def Let_def)

lemma analyzeFace_result:
  assumes "analyzeFace D c l now d = (OnFaceDetected r, l')"
  shows "ear r = fdiv D (fadd D (computeAdvancedEAR D (getLeftEye d))
                                (computeAdvancedEAR D (getRightEye d))) (Fin 2)"
    and "blinkRate r = fst (detectBlink c (l\<lparr>lastDetectionTime := now\<rparr>) (ear r) now)"
    and "attentionScore r =
           calculateAttentionScore D (ear r) (mar r) (headPose r) (gazeDirection r)
             (Fin (real (blinkRate r)))"
    and "fatigueLevel r = assessFatigueLevel (attentionScore r) (ear r) (consecutiveDrowsyFrames c)"
    and "blinkTimestamps l'
           = blinkTimestamps (snd (detectBlink c (l\<lparr>lastDetectionTime := now\<rparr>) (ear r) now))"
    and "isEyeClosed l'
           = isEyeClosed (snd (detectBlink c (l\<lparr>lastDetectionTime := now\<rparr>) (ear r) now))"
    and "lastBlinkTime l'
           = lastBlinkTime (snd (detectBlink c (l\<lparr>lastDetectionTime := now\<rparr>) (ear r) now))"
proof -
  obtain pose gaze where p: "estimateHeadPose D d = Some pose"
    and g: "advancedGazeEstimation D d = Some gaze"
    using assms by (auto simp: analyzeFace_def Let_def split: option.splits)
  let ?e = "fdiv D (fadd D (computeAdvancedEAR D (getLeftEye d))
                           (computeAdvancedEAR D (getRightEye d))) (Fin 2)"
  have e: "ear r = ?e"
    using assms by (auto simp: analyzeFace_def Let_def p g case_prod_beta)
  show "ear r = ?e" by (rule e)
  show "blinkRate r = fst (detectBlink c (l\<lparr>lastDetectionTime := now\<rparr>) (ear r) now)"
    unfolding e using assms by (auto simp: analyzeFace_def Let_def p g case_prod_beta)
  show "attentionScore r =
           calculateAttentionScore D (ear r) (mar r) (headPose r) (gazeDirection r)
             (Fin (real (blinkRate r)))"
    using assms by (auto simp: analyzeFace_def Let_def p g case_prod_beta)
  show "fatigueLevel r = assessFatigueLevel (attentionScore r) (ear r) (consecutiveDrowsyFrames c)"
    using assms by (auto simp: analyzeFace_def Let_def p g case_prod_beta)
  show "blinkTimestamps l'
          = blinkTimestamps (snd (detectBlink c (l\<lparr>lastDetectionTime := now\<rparr>) (ear r) now))"
    unfolding e using assms by (auto simp: analyzeFace_def Let_def p g case_prod_beta)
  show "isEyeClosed l'
          = isEyeClosed (snd (detectBlink c (l\<lparr>lastDetectionTime := now\<rparr>) (ear r) now))"
    unfolding e using assms by (auto simp: analyzeFace_def Let_def p g case_prod_beta)
  show "lastBlinkTime l'
          = lastBlinkTime (snd (detectBlink c (l\<lparr>lastDetectionTime := now\<rparr>) (ear r) now))"
    unfolding e using assms by (auto simp: analyzeFace_def Let_def p g case_prod_beta)
qed

lemma computeAdvancedEAR_six_points:
  "6 \<le> length eye \<Longrightarrow>
   computeAdvancedEAR D eye =
     fdiv D (fadd D (euclideanDistance D (eye ! 1) (eye ! 5))
                    (euclideanDistance D (eye ! 2) (eye ! 4)))
            (fmul D (Fin 2) (euclideanDistance D (eye ! 0) (eye ! 3)))"
  by (simp add: computeAdvancedEAR_def Let_def)

text \<open>
  Claim C10. When a run of the sampling callback on a detected face hands a result to
  \<^verbatim>\<open>onFaceDetected\<close>, the \<open>ear\<close> of the result is the mean, in the arithmetic of the
  language, of the aspect ratios computed from the left and from the right eye contour,
  each on its own. The same value is the input of the blink detection, whose rate and
  state update the run carries, and of the attention score and the fatigue level. For
  two contours of six points it is the mean of the two quotients of the contour
  distances.
\<close>

theorem frame_ear_is_mean_of_both_eyes:
  assumes "sampleDetection D c l videoReady now (Some d) = (OnFaceDetected r, l')"
  shows "ear r = fdiv D (fadd D (computeAdvancedEAR D (getLeftEye d))
                                (computeAdvancedEAR D (getRightEye d))) (Fin 2)
         \<and> blinkRate r = fst (detectBlink c l (ear r) now)
         \<and> blinkTimestamps l' = blinkTimestamps (snd (detectBlink c l (ear r) now))
         \<and> isEyeClosed l' = isEyeClosed (snd (detectBlink c l (ear r) now))
         \<and> lastBlinkTime l' = lastBlinkTime (snd (detectBlink c l (ear r) now))
         \<and> attentionScore r =
             calculateAttentionScore D (ear r) (mar r) (headPose r) (gazeDirection r)
               (Fin (real (blinkRate r)))
         \<and> fatigueLevel r =
             assessFatigueLevel (attentionScore r) (ear r) (consecutiveDrowsyFrames c)
         \<and> (6 \<le> length (getLeftEye d) \<and> 6 \<le> length (getRightEye d) \<longrightarrow>
            ear r =
              fdiv D
                (fadd D
                   (fdiv D (fadd D (euclideanDistance D (getLeftEye d ! 1) (getLeftEye d ! 5))
                                   (euclideanDistance D (getLeftEye d ! 2) (getLeftEye d ! 4)))
                           (fmul D (Fin 2)
                                   (euclideanDistance D (getLeftEye d ! 0) (getLeftEye d ! 3))))
                   (fdiv D (fadd D (euclideanDistance D (getRightEye d ! 1) (getRightEye d ! 5))
                                   (euclideanDistance D (getRightEye d ! 2) (getRightEye d ! 4)))
                           (fmul D (Fin 2)
                                   (euclideanDistance D (getRightEye d ! 0) (getRightEye d ! 3)))))
                (Fin 2))"
proof -
  let ?l0 = "l\<lparr>frameCountRef := frameCountRef l + 1\<rparr>"
  have a: "analyzeFace D c ?l0 now d = (OnFaceDetected r, l')"
    using assms by (simp add: sampleDetection_def Let_def split: if_splits)
  note f = analyzeFace_result[OF a]
  have m: "ear r = fdiv D (fadd D (computeAdvancedEAR D (getLeftEye d))
                                  (computeAdvancedEAR D (getRightEye d))) (Fin 2)"
    by (rule f(1))
  have six: "ear r =
              fdiv D
                (fadd D
                   (fdiv D (fadd D (euclideanDistance D (getLeftEye d ! 1) (getLeftEye d ! 5))
                                   (euclideanDistance D (getLeftEye d ! 2) (getLeftEye d ! 4)))
                           (fmul D (Fin 2)
                                   (euclideanDistance D (getLeftEye d ! 0) (getLeftEye d ! 3))))
                   (fdiv D (fadd D (euclideanDistance D (getRightEye d ! 1) (getRightEye d ! 5))
                                   (euclideanDistance D (getRightEye d ! 2) (getRightEye d ! 4)))
                           (fmul D (Fin 2)
                                   (euclideanDistance D (getRightEye d ! 0) (getRightEye d ! 3)))))
                (Fin 2)"
    if "6 \<le> length (getLeftEye d)" "6 \<le> length (getRightEye d)"
    unfolding m computeAdvancedEAR_six_points[OF that(1)]
      computeAdvancedEAR_six_points[OF that(2)]
    by (rule refl)
  have b: "blinkRate r = fst (detectBlink c l (ear r) now)"
    using f(2) by (simp add: detectBlink_ignores_sampling_cells)
  have t: "blinkTimestamps l' = blinkTimestamps (snd (detectBlink c l (ear r) now))"
    "isEyeClosed l' = isEyeClosed (snd (detectBlink c l (ear r) now))"
    "lastBlinkTime l' = lastBlinkTime (snd (detectBlink c l (ear r) now))"
    using f(5,6,7) by (simp_all add: detectBlink_ignores_sampling_cells)
  show ?thesis
    using m b t f(3) f(4) six by blast
qed

lemma sqrt_values: "sqrt 4 = 2" "sqrt 16 = 4" "sqrt 64 = 8"
  using real_sqrt_abs[of 2] real_sqrt_abs[of 4] real_sqrt_abs[of 8]
  by simp_all

lemma example_ops_simps:
  "fadd example_ops (Fin a) (Fin b) = Fin (a + b)"
  "fsub example_ops (Fin a) (Fin b) = Fin (a - b)"
  "fmul example_ops (Fin a) (Fin b) = Fin (a * b)"
  "fdiv example_ops (Fin a) (Fin b) = js_div a b"
  "fsquare example_ops (Fin a) = Fin (a * a)"
  "fsqrt example_ops (Fin a) = (if a < 0 then NaN else Fin (sqrt a))"
  "fatan example_ops (Fin a) = Fin (arctan a)"
  "fatan2 example_ops (Fin a) (Fin b) = Fin (js_atan2 a b)"
  "fPI example_ops = Fin pi"
  by (simp_all add: example_ops_def)

lemma example_face_ear:
  "computeAdvancedEAR example_ops (getLeftEye example_face) = Fin 0.25"
  "computeAdvancedEAR example_ops (getRightEye example_face) = Fin 0.5"
  by (simp_all add: example_face_def computeAdvancedEAR_def euclideanDistance_def pt_def
      example_ops_simps js_div_def Let_def sqrt_values)

lemma example_face_mar: "computeMAR example_ops (getMouth example_face) = Fin 0.25"
  by (simp add: example_face_def computeMAR_def euclideanDistance_def pt_def
      example_ops_simps js_div_def Let_def sqrt_values)

lemma example_face_pose:
  "estimateHeadPose example_ops example_face
     = Some \<lparr>yaw = Fin 0, pitch = Fin 0, roll = Fin 0\<rparr>"
  by (simp add: example_face_def estimateHeadPose_def at_index_def pt_def
      example_ops_simps js_div_def js_atan2_def Let_def)

lemma example_face_gaze: "advancedGazeEstimation example_ops example_face = Some ''center''"
  by (simp add: example_face_def advancedGazeEstimation_def at_index_def pt_def
      example_ops_simps js_div_def js_gt_def Let_def)

lemma example_face_score:
  "calculateAttentionScore example_ops (Fin 0.375) (Fin 0.25)
     \<lparr>yaw = Fin 0, pitch = Fin 0, roll = Fin 0\<rparr> ''center'' (Fin 0) = 65"
  by (simp add: calculateAttentionScore_def js_gt_def Let_def example_ops_simps)

lemma example_face_blink:
  "blinkTimestamps c = [] \<Longrightarrow> \<not> isEyeClosed c \<Longrightarrow> detectBlink c l (Fin 0.375) t = (0, l)"
  by (simp add: detectBlink_def BLINK_THRESHOLD_def js_ge_def Let_def)

lemma example_face_analyze:
  assumes "\<not> isEyeClosed c" "blinkTimestamps c = []" "consecutiveDrowsyFrames c = 0"
    "earHistory c = []" "attentionHistory c = []" "consecutiveDrowsyFrames l = 0"
  shows "analyzeFace example_ops c l now example_face =
     (OnFaceDetected
        \<lparr>isDrowsy = True, isAttentive = False, emotion = ''neutral'', ear = Fin 0.375,
         mar = Fin 0.25, gazeDirection = ''center'',
         headPose = \<lparr>yaw = Fin 0, pitch = Fin 0, roll = Fin 0\<rparr>, blinkRate = 0,
         attentionScore = 65, fatigueLevel = Low, confidence = Fin 75\<rparr>,
      l\<lparr>lastDetectionTime := now, consecutiveDrowsyFrames := 1,
        earHistory := [Fin 0.375], attentionHistory := [65]\<rparr>)"
proof -
  have k: "js_round (fmul example_ops (score example_face) (Fin 100)) = Fin 75"
    by (simp add: example_face_def example_ops_simps)
  have e: "asSortedArray example_face = [''neutral'', ''happy'']"
    by (simp add: example_face_def)
  have b: "detectBlink c (l\<lparr>lastDetectionTime := now\<rparr>) (Fin 0.375) now
             = (0, l\<lparr>lastDetectionTime := now\<rparr>)"
    using assms(1,2) by (intro example_face_blink) simp_all
  have m: "fdiv example_ops (fadd example_ops (Fin 0.25) (Fin 0.5)) (Fin 2) = Fin 0.375"
    by (simp add: example_ops_simps js_div_def)
  have f: "assessFatigueLevel 65 (Fin 0.375) 0 = Low"
    by (simp add: assessFatigueLevel_def)
  have dr: "assessDrowsinessFromBlinks 0" by (simp add: assessDrowsinessFromBlinks_def)
  show ?thesis
    unfolding analyzeFace_def Let_def example_face_pose example_face_gaze example_face_ear
      example_face_mar m option.case b prod.case k e list.case
    using assms(3,4,5,6) dr f example_face_score by (simp add: takeLast_def)
qed

text \<open>
  The example face, sampled at 1000 in a session started from the initial state: the
  eyes have the ratios 0.25 and 0.5, and the result carries their mean 0.375.
\<close>

theorem frame_ear_is_mean_of_both_eyes_witness:
  "sampleDetection example_ops (initial_det 0) (startDetection (initial_det 0) True 0) True 1000
     (Some example_face) =
     (OnFaceDetected
        \<lparr>isDrowsy = True, isAttentive = False, emotion = ''neutral'', ear = Fin 0.375,
         mar = Fin 0.25, gazeDirection = ''center'',
         headPose = \<lparr>yaw = Fin 0, pitch = Fin 0, roll = Fin 0\<rparr>, blinkRate = 0,
         attentionScore = 65, fatigueLevel = Low, confidence = Fin 75\<rparr>,
      (startDetection (initial_det 0) True 0)
        \<lparr>frameCountRef := 1, lastDetectionTime := 1000, consecutiveDrowsyFrames := 1,
         earHistory := [Fin 0.375], attentionHistory := [65]\<rparr>)
   \<and> computeAdvancedEAR example_ops (getLeftEye example_face) = Fin 0.25
   \<and> computeAdvancedEAR example_ops (getRightEye example_face) = Fin 0.5
   \<and> fdiv example_ops
        (fadd example_ops (computeAdvancedEAR example_ops (getLeftEye example_face))
                          (computeAdvancedEAR example_ops (getRightEye example_face)))
        (Fin 2) = Fin 0.375"
proof -
  let ?c = "initial_det 0"
  let ?l = "startDetection (initial_det 0) True 0"
  let ?r = "\<lparr>isDrowsy = True, isAttentive = False, emotion = ''neutral'', ear = Fin 0.375,
         mar = Fin 0.25, gazeDirection = ''center'',
         headPose = \<lparr>yaw = Fin 0, pitch = Fin 0, roll = Fin 0\<rparr>, blinkRate = 0,
         attentionScore = 65, fatigueLevel = Low, confidence = Fin 75\<rparr>"
  let ?l' = "?l\<lparr>frameCountRef := 1, lastDetectionTime := 1000, consecutiveDrowsyFrames := 1,
         earHistory := [Fin 0.375], attentionHistory := [65]\<rparr>"
  have d: "isDetectingRef ?l" "frameCountRef ?l = 0"
    by (simp_all add: startDetection_def initial_det_def)
  have "analyzeFace example_ops ?c (?l\<lparr>frameCountRef := 1\<rparr>) 1000 example_face =
          (OnFaceDetected ?r,
           ?l\<lparr>frameCountRef := 1, lastDetectionTime := 1000, consecutiveDrowsyFrames := 1,
              earHistory := [Fin 0.375], attentionHistory := [65]\<rparr>)"
    by (subst example_face_analyze) (simp_all add: startDetection_def initial_det_def)
  then have h: "sampleDetection example_ops ?c ?l True 1000 (Some example_face)
                  = (OnFaceDetected ?r, ?l')"
    using d by (simp add: sampleDetection_def)
  from frame_ear_is_mean_of_both_eyes[OF h]
  have "ear ?r = fdiv example_ops
        (fadd example_ops (computeAdvancedEAR example_ops (getLeftEye example_face))
                          (computeAdvancedEAR example_ops (getRightEye example_face)))
        (Fin 2)"
    by blast
  then have "fdiv example_ops
        (fadd example_ops (computeAdvancedEAR example_ops (getLeftEye example_face))
                          (computeAdvancedEAR example_ops (getRightEye example_face)))
        (Fin 2) = Fin 0.375"
    by simp
  with h example_face_ear show ?thesis by blast
qed

section \<open>The presence gate\<close>







section \<open>The absence notification\<close>

lemma sampleDetection_absent:
  "isDetectingRef l \<Longrightarrow> sampleDetection D c l True t None =
     (if 5000 < t - lastDetectionTime c
      then (OnFaceNotDetected, l\<lparr>frameCountRef := frameCountRef l + 1, lastDetectionTime := t\<rparr>)
      else (Nothing, l\<lparr>frameCountRef := frameCountRef l + 1\<rparr>))"
  by (simp add: sampleDetection_def Let_def)

text \<open>
  After a notification the loop sets the last detection time to the current time, but
  the test of the next run reads the captured time again: in a session every absent
  sample more than 5000 ms after the captured time notifies.
\<close>

lemma absenceRun_notifies_past_captured_time:
  "isDetectingRef l \<Longrightarrow>
   absenceRun D c l ts = filter (\<lambda>t. 5000 < t - lastDetectionTime c) ts"
  by (induction ts arbitrary: l) (simp_all add: sampleDetection_absent)

text \<open>
  Claim C3 says that an absence episode notifies exactly once, however long it lasts.
  With the hook mounted and detection started at time 0 and no face from then on, sampled
  every 150 ms up to 10350 ms, the notification is sent 36 times: at 5100 ms and at every
  sample after it.
\<close>

theorem session_absence_notifies_every_sample:
  "absenceRun example_ops (initial_det 0) (startDetection (initial_det 0) True 0)
     (map (\<lambda>k. 150 * int k) [1..<70])
     = map (\<lambda>k. 150 * int k) [34..<70]
   \<and> length (absenceRun example_ops (initial_det 0) (startDetection (initial_det 0) True 0)
              (map (\<lambda>k. 150 * int k) [1..<70])) = 36"
proof -
  have d: "isDetectingRef (startDetection (initial_det 0) True 0)"
    by (simp add: startDetection_def initial_det_def)
  have l: "lastDetectionTime (initial_det 0) = 0"
    by (simp add: initial_det_def)
  have "absenceRun example_ops (initial_det 0) (startDetection (initial_det 0) True 0)
          (map (\<lambda>k. 150 * int k) [1..<70])
        = map (\<lambda>k. 150 * int k) [34..<70]"
    unfolding absenceRun_notifies_past_captured_time[OF d] l
    by (simp add: upt_rec)
  then show ?thesis by simp
qed

end
